theory Spec2Isabelle
  imports Main "HOL-Library.Word" "HOL-Library.Char_ord" "HOL-Library.List_Lexorder"
begin

section \<open>Common data: byte slices and the random source\<close>

text \<open>
  A Go \<^verbatim>\<open>[]byte\<close> is either the nil slice or a sequence of bytes; the code tests
  both \<^verbatim>\<open>x == nil\<close> and \<^verbatim>\<open>len(x)\<close>, so a slice is an optional byte list with
  \<open>None\<close> for nil.
\<close>

type_synonym byte = "8 word"
type_synonym slice = "byte list option"

definition len :: "slice \<Rightarrow> nat" where
  "len s = (case s of None \<Rightarrow> 0 | Some bs \<Rightarrow> length bs)"

text \<open>
  \<^verbatim>\<open>crypto/rand\<close> is the one source of randomness of the repository. It is an
  explicit state: a tape of raw draws, where \<open>None\<close> at a position is a failure of the
  source at that draw, and the position of the next draw. \<^verbatim>\<open>rand.Read(buf)\<close>
  fills the whole buffer or fails; \<^verbatim>\<open>rand.Int(rand.Reader, max)\<close> returns a value
  below \<open>max\<close> or fails.
\<close>

record rand_source =
  tape :: "nat \<Rightarrow> nat option"
  pos :: nat

definition rand_Read :: "nat \<Rightarrow> rand_source \<Rightarrow> byte list option \<times> rand_source" where
  "rand_Read n r =
     (map_option (map word_of_nat) (those (map (tape r) [pos r ..< pos r + n])),
      r\<lparr>pos := pos r + n\<rparr>)"

definition rand_Int :: "nat \<Rightarrow> rand_source \<Rightarrow> nat option \<times> rand_source" where
  "rand_Int bound r =
     (map_option (\<lambda>v. v mod bound) (tape r (pos r)), r\<lparr>pos := pos r + 1\<rparr>)"

section \<open>Authenticated cipher (internal/crypto/cipher.go)\<close>

text \<open>
  AES-256-GCM itself is the Go standard library's. The code uses it through
  \<^verbatim>\<open>gcm.Seal(dst, nonce, plaintext, nil)\<close>, which appends the sealed bytes to
  \<open>dst\<close>, and \<^verbatim>\<open>gcm.Open(nil, nonce, data, nil)\<close>, which returns the plaintext or
  the library's single authentication error. The primitive is a parameter of the model:
  \<open>gcm_Seal key nonce plaintext\<close> is the appended part, \<open>gcm_Open key nonce data\<close>
  is \<open>None\<close> when authentication fails.
\<close>

record aes_gcm =
  gcm_Seal :: "byte list \<Rightarrow> byte list \<Rightarrow> byte list \<Rightarrow> byte list"
  gcm_Open :: "byte list \<Rightarrow> byte list \<Rightarrow> byte list \<Rightarrow> byte list option"

definition DefaultNonceSize :: nat where
  "DefaultNonceSize = 12"

definition minCiphertextSize :: nat where
  "minCiphertextSize = DefaultNonceSize + 16"

datatype crypto_error =
    PlaintextNil
  | KeyNil
  | KeySize nat
  | CiphertextNil
  | CiphertextTooShort nat nat
  | NewCipherFailed nat
  | NonceTooShort
  | NonceGenerationFailed
  | DecryptionFailed

text \<open>\<^verbatim>\<open>aes.NewCipher\<close> accepts keys of 16, 24 or 32 bytes and no other.\<close>

definition aes_NewCipher :: "byte list \<Rightarrow> crypto_error option" where
  "aes_NewCipher k =
     (if length k = 16 \<or> length k = 24 \<or> length k = 32 then None
      else Some (NewCipherFailed (length k)))"

definition GenerateNonce :: "rand_source \<Rightarrow> (crypto_error + byte list) \<times> rand_source" where
  "GenerateNonce r =
     (case rand_Read DefaultNonceSize r of
        (None, r') \<Rightarrow> (Inl NonceGenerationFailed, r')
      | (Some nonce, r') \<Rightarrow> (Inr nonce, r'))"

definition Encrypt ::
  "aes_gcm \<Rightarrow> slice \<Rightarrow> slice \<Rightarrow> rand_source \<Rightarrow> (crypto_error + byte list) \<times> rand_source" where
  "Encrypt G plaintext key r =
     (case plaintext of
        None \<Rightarrow> (Inl PlaintextNil, r)
      | Some p \<Rightarrow>
         (case key of
            None \<Rightarrow> (Inl KeyNil, r)
          | Some k \<Rightarrow>
             if length k \<noteq> 32 then (Inl (KeySize (length k)), r)
             else
               (case aes_NewCipher k of
                  Some e \<Rightarrow> (Inl e, r)
                | None \<Rightarrow>
                   (case GenerateNonce r of
                      (Inl e, r') \<Rightarrow> (Inl e, r')
                    | (Inr nonce, r') \<Rightarrow> (Inr (nonce @ gcm_Seal G k nonce p), r')))))"

definition Decrypt :: "aes_gcm \<Rightarrow> slice \<Rightarrow> slice \<Rightarrow> crypto_error + byte list" where
  "Decrypt G ciphertext key =
     (case ciphertext of
        None \<Rightarrow> Inl CiphertextNil
      | Some c \<Rightarrow>
         (case key of
            None \<Rightarrow> Inl KeyNil
          | Some k \<Rightarrow>
             if length k \<noteq> 32 then Inl (KeySize (length k))
             else if length c < minCiphertextSize
               then Inl (CiphertextTooShort minCiphertextSize (length c))
             else
               (case aes_NewCipher k of
                  Some e \<Rightarrow> Inl e
                | None \<Rightarrow>
                   let nonceSize = DefaultNonceSize in
                   if length c < nonceSize then Inl NonceTooShort
                   else
                     (let nonce = take nonceSize c;
                          encryptedData = drop nonceSize c
                      in case gcm_Open G k nonce encryptedData of
                           None \<Rightarrow> Inl DecryptionFailed
                         | Some p \<Rightarrow> Inr p))))"

text \<open>
  What the code relies on from the library: a sealed message is the plaintext's length
  plus the 16-byte tag, and opening a sealed message under the same key and nonce gives
  the plaintext back.
\<close>

definition gcm_contract :: "aes_gcm \<Rightarrow> bool" where
  "gcm_contract G \<longleftrightarrow>
     (\<forall>k n p. length (gcm_Seal G k n p) = length p + 16 \<and>
              gcm_Open G k n (gcm_Seal G k n p) = Some p)"

text \<open>
  A small instance of the primitive, for running the model on concrete inputs: the tag
  is sixteen copies of the byte sum of key, nonce and message.
\<close>

definition example_tag :: "byte list \<Rightarrow> byte list \<Rightarrow> byte list \<Rightarrow> byte list" where
  "example_tag k n p = replicate 16 (sum_list (k @ n @ p))"

definition example_gcm :: aes_gcm where
  "example_gcm =
     \<lparr> gcm_Seal = (\<lambda>k n p. p @ example_tag k n p),
       gcm_Open = (\<lambda>k n d.
          if length d < 16 then None
          else (let p = take (length d - 16) d
                in if drop (length d - 16) d = example_tag k n p then Some p else None)) \<rparr>"

definition counting_source :: rand_source where
  "counting_source = \<lparr> tape = (\<lambda>i. Some i), pos = 0 \<rparr>"

definition constant_source :: rand_source where
  "constant_source = \<lparr> tape = (\<lambda>i. Some 7), pos = 0 \<rparr>"

definition failing_source :: rand_source where
  "failing_source = \<lparr> tape = (\<lambda>i. None), pos = 0 \<rparr>"

definition key32 :: "byte list" where
  "key32 = replicate 32 1"

definition other_key32 :: "byte list" where
  "other_key32 = replicate 32 2"

definition sealed123 :: "byte list" where
  "sealed123 = [0,1,2,3,4,5,6,7,8,9,10,11] @ [1,2,3] @ replicate 16 104"

definition tampered123 :: "byte list" where
  "tampered123 = [0,1,2,3,4,5,6,7,8,9,10,11] @ [1,2,4] @ replicate 16 104"

text \<open>The random source does not fail during its next \<open>n\<close> draws.\<close>

definition rand_ok :: "nat \<Rightarrow> rand_source \<Rightarrow> bool" where
  "rand_ok n r \<longleftrightarrow> (\<forall>i<n. tape r (pos r + i) \<noteq> None)"

section \<open>Key derivation\<close>

definition MinSaltLength :: nat where
  "MinSaltLength = 8"

record Argon2Params =
  Time :: "32 word"
  Memory :: "32 word"
  Parallelism :: "8 word"
  KeyLen :: "32 word"

datatype param_error =
    TimeZero | MemoryZero | ParallelismZero | KeyLenZero | KeyLenTooShort | MemoryTooLow

datatype kdf_error =
    PasswordEmpty | SaltNil | SaltTooShort nat nat | InvalidParams param_error

definition Validate :: "Argon2Params \<Rightarrow> param_error option" where
  "Validate p =
     (if Time p = 0 then Some TimeZero
      else if Memory p = 0 then Some MemoryZero
      else if Parallelism p = 0 then Some ParallelismZero
      else if KeyLen p = 0 then Some KeyLenZero
      else if KeyLen p < 16 then Some KeyLenTooShort
      else if Memory p < 8 * 1024 then Some MemoryTooLow
      else None)"

type_synonym argon2_IDKey =
  "byte list \<Rightarrow> byte list \<Rightarrow> 32 word \<Rightarrow> 32 word \<Rightarrow> 8 word \<Rightarrow> 32 word \<Rightarrow> byte list"

definition bytes_of_string :: "string \<Rightarrow> byte list" where
  "bytes_of_string s = map (\<lambda>c. word_of_nat (of_char c)) s"

definition DeriveKey ::
  "argon2_IDKey \<Rightarrow> string \<Rightarrow> slice \<Rightarrow> Argon2Params \<Rightarrow> kdf_error + byte list" where
  "DeriveKey IDKey password salt params =
     (if password = [] then Inl PasswordEmpty
      else case salt of
        None \<Rightarrow> Inl SaltNil
      | Some s \<Rightarrow>
          if length s < MinSaltLength then Inl (SaltTooShort MinSaltLength (length s))
          else (case Validate params of
                  Some e \<Rightarrow> Inl (InvalidParams e)
                | None \<Rightarrow>
                    Inr (IDKey (bytes_of_string password) s (Time params) (Memory params)
                           (Parallelism params) (KeyLen params))))"

definition IDKey_contract :: "argon2_IDKey \<Rightarrow> bool" where
  "IDKey_contract F \<longleftrightarrow> (\<forall>pw s t m p n. length (F pw s t m p n) = unat n)"

definition example_IDKey :: argon2_IDKey where
  "example_IDKey pw s t m p n = replicate (unat n) (sum_list (pw @ s))"

definition DefaultArgon2Params :: Argon2Params where
  "DefaultArgon2Params = \<lparr> Time = 3, Memory = 64 * 1024, Parallelism = 4, KeyLen = 32 \<rparr>"

section \<open>Password generator\<close>

definition uppercaseChars :: string where
  "uppercaseChars = ''ABCDEFGHJKLMNPQRSTUVWXYZ''"

definition lowercaseChars :: string where
  "lowercaseChars = ''abcdefghijkmnopqrstuvwxyz''"

definition digitChars :: string where
  "digitChars = ''23456789''"

definition symbolChars :: string where
  "symbolChars = ''!@#$%^&*()-_=+[]{}|;:,.<>?''"

definition uppercaseCharsAmbiguous :: string where
  "uppercaseCharsAmbiguous = ''ABCDEFGHIJKLMNOPQRSTUVWXYZ''"

definition lowercaseCharsAmbiguous :: string where
  "lowercaseCharsAmbiguous = ''abcdefghijklmnopqrstuvwxyz''"

definition digitCharsAmbiguous :: string where
  "digitCharsAmbiguous = ''0123456789''"

definition MinPasswordLength :: int where
  "MinPasswordLength = 4"

definition MaxPasswordLength :: int where
  "MaxPasswordLength = 128"

record GenerateOptions =
  UseUppercase :: bool
  UseLowercase :: bool
  UseDigits :: bool
  UseSymbols :: bool
  ExcludeAmbiguous :: bool

datatype generate_error =
    LengthTooShort int
  | LengthTooLong int
  | NoCharacterType
  | RandomNumberFailed

definition buildCharset :: "GenerateOptions \<Rightarrow> string" where
  "buildCharset options =
     (if UseUppercase options
      then (if ExcludeAmbiguous options then uppercaseChars else uppercaseCharsAmbiguous)
      else []) @
     (if UseLowercase options
      then (if ExcludeAmbiguous options then lowercaseChars else lowercaseCharsAmbiguous)
      else []) @
     (if UseDigits options
      then (if ExcludeAmbiguous options then digitChars else digitCharsAmbiguous)
      else []) @
     (if UseSymbols options then symbolChars else [])"

text \<open>The loop of \<^verbatim>\<open>containsAny\<close> over the characters of the charset.\<close>

fun containsAny :: "string \<Rightarrow> string \<Rightarrow> bool" where
  "containsAny s [] = False"
| "containsAny s (c # charset) = (if c \<in> set s then True else containsAny s charset)"

definition meetsRequirements :: "string \<Rightarrow> GenerateOptions \<Rightarrow> bool" where
  "meetsRequirements password options =
     (if UseUppercase options \<and> \<not> containsAny password uppercaseCharsAmbiguous then False
      else if UseLowercase options \<and> \<not> containsAny password lowercaseCharsAmbiguous then False
      else if UseDigits options \<and> \<not> containsAny password digitCharsAmbiguous then False
      else if UseSymbols options \<and> \<not> containsAny password symbolChars then False
      else True)"

text \<open>
  \<^verbatim>\<open>forceRequirements\<close> writes into the byte slice at \<open>idx\<close>, which starts at 0 and
  moves on after each of the first three patches. Every check reads the slice as patched
  so far. The slice has at least 4 bytes and \<open>idx\<close> is at most 3, so no write is out
  of range.
\<close>

definition forceRequirements :: "string \<Rightarrow> GenerateOptions \<Rightarrow> string" where
  "forceRequirements password options =
     (let idx = (0::nat);
          (password, idx) =
            (if UseUppercase options \<and> \<not> containsAny password uppercaseCharsAmbiguous
             then (password[idx := (if ExcludeAmbiguous options then uppercaseChars ! 0
                                    else uppercaseCharsAmbiguous ! 0)], idx + 1)
             else (password, idx));
          (password, idx) =
            (if UseLowercase options \<and> \<not> containsAny password lowercaseCharsAmbiguous
             then (password[idx := (if ExcludeAmbiguous options then lowercaseChars ! 0
                                    else lowercaseCharsAmbiguous ! 0)], idx + 1)
             else (password, idx));
          (password, idx) =
            (if UseDigits options \<and> \<not> containsAny password digitCharsAmbiguous
             then (password[idx := (if ExcludeAmbiguous options then digitChars ! 0
                                    else digitCharsAmbiguous ! 0)], idx + 1)
             else (password, idx));
          password =
            (if UseSymbols options \<and> \<not> containsAny password symbolChars
             then password[idx := symbolChars ! 0]
             else password)
      in password)"

text \<open>
  The drawing loop \<^verbatim>\<open>for i := 0; i < length; i++\<close>: one \<^verbatim>\<open>rand.Int\<close> per
  position, in order; the first failure of the source ends the call.
\<close>

fun draw_password :: "nat \<Rightarrow> string \<Rightarrow> rand_source \<Rightarrow> string option \<times> rand_source" where
  "draw_password 0 charset r = (Some [], r)"
| "draw_password (Suc n) charset r =
     (case rand_Int (length charset) r of
        (None, r') \<Rightarrow> (None, r')
      | (Some i, r') \<Rightarrow>
          (case draw_password n charset r' of
             (None, r'') \<Rightarrow> (None, r'')
           | (Some rest, r'') \<Rightarrow> (Some (charset ! i # rest), r'')))"

definition maxRetries :: int where
  "maxRetries = 10"

function generateWithRetries ::
  "int \<Rightarrow> GenerateOptions \<Rightarrow> int \<Rightarrow> rand_source \<Rightarrow> (generate_error + string) \<times> rand_source"
where
  "generateWithRetries pwlen options retryCount r =
     (if pwlen < MinPasswordLength then (Inl (LengthTooShort MinPasswordLength), r)
      else if pwlen > MaxPasswordLength then (Inl (LengthTooLong MaxPasswordLength), r)
      else
        (let charset = buildCharset options in
         if charset = [] then (Inl NoCharacterType, r)
         else
           (case draw_password (nat pwlen) charset r of
              (None, r') \<Rightarrow> (Inl RandomNumberFailed, r')
            | (Some password, r') \<Rightarrow>
                if \<not> meetsRequirements password options then
                  (if retryCount < 10
                   then generateWithRetries pwlen options (retryCount + 1) r'
                   else (Inr (forceRequirements password options), r'))
                else (Inr password, r'))))"
  by pat_completeness auto
termination
  by (relation "measure (\<lambda>(pwlen, options, retryCount, r). nat (10 - retryCount))") auto

definition Generate ::
  "int \<Rightarrow> GenerateOptions \<Rightarrow> rand_source \<Rightarrow> (generate_error + string) \<times> rand_source" where
  "Generate pwlen options r = generateWithRetries pwlen options 0 r"

definition all_classes :: GenerateOptions where
  "all_classes = \<lparr> UseUppercase = True, UseLowercase = True, UseDigits = True,
                    UseSymbols = True, ExcludeAmbiguous = False \<rparr>"

text \<open>
  A random source whose draws select, over and over, the characters
  \<^verbatim>\<open>A\<close>, \<^verbatim>\<open>a\<close>, \<^verbatim>\<open>b\<close>, \<^verbatim>\<open>1\<close> of the full 88-character charset.
\<close>

definition Aab1_source :: rand_source where
  "Aab1_source = \<lparr> tape = (\<lambda>i. Some ([0, 26, 27, 53] ! (i mod 4))), pos = 0 \<rparr>"

section \<open>Encrypted record store (internal/storage, internal/models)\<close>

text \<open>
  Instants are nanoseconds since the Unix epoch. \<^verbatim>\<open>time.Now()\<close> gives the instant
  itself; SQLite's \<^verbatim>\<open>CURRENT_TIMESTAMP\<close> is the instant cut to whole seconds.
\<close>

type_synonym time = nat

definition CURRENT_TIMESTAMP :: "time \<Rightarrow> time" where
  "CURRENT_TIMESTAMP t = t - t mod 1000000000"

definition Unix :: "time \<Rightarrow> nat" where
  "Unix t = t div 1000000000"

record Entry =
  ID :: string
  Name :: string
  Category :: string
  Username :: string
  Password :: string
  URL :: string
  Notes :: string
  Tags :: "string list"
  CreatedAt :: time
  UpdatedAt :: time

definition SearchText :: "Entry \<Rightarrow> string" where
  "SearchText e = foldl (\<lambda>searchable tag. searchable @ '' '' @ tag)
                        (Name e @ '' '' @ Category e) (Tags e)"

record EntryData =
  data_Username :: string
  data_Password :: string
  data_URL :: string
  data_Notes :: string
  data_Tags :: "string list"

text \<open>
  The libraries the store calls: AES-GCM, \<^verbatim>\<open>json.Marshal\<close> (\<open>None\<close> when it
  returns an error) and the text form of a UUID made of 16 random bytes.
\<close>

record libs =
  lib_gcm :: aes_gcm
  json_Marshal :: "EntryData \<Rightarrow> byte list option"
  uuid_String :: "byte list \<Rightarrow> string"

text \<open>
  A row of the table \<^verbatim>\<open>entries\<close> of the schema in \<^verbatim>\<open>createSchema\<close>; the table
  is the list of its rows. \<^verbatim>\<open>id\<close> is the primary key and \<^verbatim>\<open>name\<close> is unique.
\<close>

record row =
  col_id :: string
  col_name :: string
  col_category :: string
  col_encrypted_data :: "byte list"
  col_encrypted_search :: "byte list"
  col_created_at :: time
  col_updated_at :: time
  col_encryption_nonce :: "byte list"
  col_search_nonce :: "byte list"

record store =
  rnd :: rand_source
  entries :: "row list"

datatype store_error =
    EntryNil
  | NameEmpty
  | EntryPasswordEmpty
  | KeyNot32
  | IDEmpty
  | UUIDPanic
  | MarshalFailed
  | EncryptDataFailed crypto_error
  | EncryptSearchFailed crypto_error
  | InsertFailed
  | UpdateFailed
  | EntryNotFound string

text \<open>\<^verbatim>\<open>INSERT INTO entries\<close>: refused when the id or the name is already there.\<close>

definition insert_entry :: "row \<Rightarrow> row list \<Rightarrow> row list option" where
  "insert_entry x t =
     (if col_id x \<in> set (map col_id t) \<or> col_name x \<in> set (map col_name t) then None
      else Some (t @ [x]))"

text \<open>
  The trigger \<^verbatim>\<open>update_entries_timestamp\<close>: after an update of a row, its
  \<^verbatim>\<open>updated_at\<close> is set to \<^verbatim>\<open>CURRENT_TIMESTAMP\<close>. \<open>db_now\<close> is the instant at
  which the statement runs.
\<close>

definition update_entries_timestamp :: "time \<Rightarrow> row \<Rightarrow> row" where
  "update_entries_timestamp db_now y = y\<lparr>col_updated_at := CURRENT_TIMESTAMP db_now\<rparr>"

text \<open>
  \<^verbatim>\<open>UPDATE entries SET ... WHERE id = ?\<close>: refused when a row is hit and another row
  has the new name; otherwise the rows hit are rewritten, the trigger runs on each, and
  the number of rows hit is reported.
\<close>

definition update_entry ::
  "string \<Rightarrow> string \<Rightarrow> byte list \<Rightarrow> byte list \<Rightarrow> time \<Rightarrow> byte list \<Rightarrow> byte list \<Rightarrow>
   string \<Rightarrow> time \<Rightarrow> row list \<Rightarrow> (nat \<times> row list) option" where
  "update_entry name' category' data' search' updated' nonce' snonce' id' db_now t =
     (if id' \<in> set (map col_id t) \<and>
         name' \<in> set (map col_name (filter (\<lambda>y. col_id y \<noteq> id') t))
      then None
      else Some (length (filter (\<lambda>y. col_id y = id') t),
                 map (\<lambda>y. if col_id y = id'
                          then update_entries_timestamp db_now
                                 (y\<lparr>col_name := name', col_category := category',
                                    col_encrypted_data := data', col_encrypted_search := search',
                                    col_updated_at := updated', col_encryption_nonce := nonce',
                                    col_search_nonce := snonce'\<rparr>)
                          else y) t))"

definition entry_data :: "Entry \<Rightarrow> EntryData" where
  "entry_data e = \<lparr> data_Username = Username e, data_Password = Password e, data_URL = URL e,
                    data_Notes = Notes e, data_Tags = Tags e \<rparr>"

text \<open>
  \<^verbatim>\<open>CreateEntry\<close>. The entry is passed by pointer and changed in place, so the entry
  as the call leaves it is part of the result. \<^verbatim>\<open>uuid.New()\<close> panics when the
  random source fails. \<open>now\<close> is what \<^verbatim>\<open>time.Now()\<close> returns.
\<close>

definition CreateEntry ::
  "libs \<Rightarrow> time \<Rightarrow> Entry option \<Rightarrow> slice \<Rightarrow> store \<Rightarrow> store_error option \<times> Entry option \<times> store"
where
  "CreateEntry L now entry key db =
     (case entry of
        None \<Rightarrow> (Some EntryNil, None, db)
      | Some e \<Rightarrow>
          if Name e = [] then (Some NameEmpty, Some e, db)
          else if Password e = [] then (Some EntryPasswordEmpty, Some e, db)
          else if key = None \<or> len key \<noteq> 32 then (Some KeyNot32, Some e, db)
          else
            (case (if ID e = []
                   then (case rand_Read 16 (rnd db) of
                           (None, r) \<Rightarrow> (None, r)
                         | (Some u, r) \<Rightarrow> (Some (e\<lparr>ID := uuid_String L u\<rparr>), r))
                   else (Some e, rnd db)) of
               (None, r) \<Rightarrow> (Some UUIDPanic, Some e, db\<lparr>rnd := r\<rparr>)
             | (Some e, r) \<Rightarrow>
                 let e = e\<lparr>CreatedAt := now, UpdatedAt := now\<rparr>;
                     e = (if Category e = [] then e\<lparr>Category := ''general''\<rparr> else e)
                 in
                 (case json_Marshal L (entry_data e) of
                    None \<Rightarrow> (Some MarshalFailed, Some e, db\<lparr>rnd := r\<rparr>)
                  | Some dataJSON \<Rightarrow>
                      (case Encrypt (lib_gcm L) (Some dataJSON) key r of
                         (Inl err, r) \<Rightarrow> (Some (EncryptDataFailed err), Some e, db\<lparr>rnd := r\<rparr>)
                       | (Inr encryptedData, r) \<Rightarrow>
                           let searchText = SearchText e @ '' '' @ Username e @ '' '' @ URL e
                           in
                           (case Encrypt (lib_gcm L) (Some (bytes_of_string searchText)) key r of
                              (Inl err, r) \<Rightarrow>
                                (Some (EncryptSearchFailed err), Some e, db\<lparr>rnd := r\<rparr>)
                            | (Inr encryptedSearch, r) \<Rightarrow>
                                (case insert_entry
                                        \<lparr> col_id = ID e, col_name = Name e,
                                          col_category = Category e,
                                          col_encrypted_data = encryptedData,
                                          col_encrypted_search = encryptedSearch,
                                          col_created_at = CreatedAt e,
                                          col_updated_at = UpdatedAt e,
                                          col_encryption_nonce = take 12 encryptedData,
                                          col_search_nonce = take 12 encryptedSearch \<rparr>
                                        (entries db) of
                                   None \<Rightarrow> (Some InsertFailed, Some e, db\<lparr>rnd := r\<rparr>)
                                 | Some t \<Rightarrow>
                                     (None, Some e, db\<lparr>rnd := r, entries := t\<rparr>)))))))"

text \<open>
  \<^verbatim>\<open>UpdateEntry\<close>. \<open>now\<close> is what \<^verbatim>\<open>time.Now()\<close> returns, \<open>db_now\<close> the instant
  at which the database runs the statement.
\<close>

definition UpdateEntry ::
  "libs \<Rightarrow> time \<Rightarrow> time \<Rightarrow> Entry option \<Rightarrow> slice \<Rightarrow> store \<Rightarrow>
   store_error option \<times> Entry option \<times> store"
where
  "UpdateEntry L now db_now entry key db =
     (case entry of
        None \<Rightarrow> (Some EntryNil, None, db)
      | Some e \<Rightarrow>
          if ID e = [] then (Some IDEmpty, Some e, db)
          else if Name e = [] then (Some NameEmpty, Some e, db)
          else if Password e = [] then (Some EntryPasswordEmpty, Some e, db)
          else if key = None \<or> len key \<noteq> 32 then (Some KeyNot32, Some e, db)
          else
            (let e = e\<lparr>UpdatedAt := now\<rparr>;
                 e = (if Category e = [] then e\<lparr>Category := ''general''\<rparr> else e)
             in
             (case json_Marshal L (entry_data e) of
                None \<Rightarrow> (Some MarshalFailed, Some e, db)
              | Some dataJSON \<Rightarrow>
                  (case Encrypt (lib_gcm L) (Some dataJSON) key (rnd db) of
                     (Inl err, r) \<Rightarrow> (Some (EncryptDataFailed err), Some e, db\<lparr>rnd := r\<rparr>)
                   | (Inr encryptedData, r) \<Rightarrow>
                       let searchText = SearchText e @ '' '' @ Username e @ '' '' @ URL e
                       in
                       (case Encrypt (lib_gcm L) (Some (bytes_of_string searchText)) key r of
                          (Inl err, r) \<Rightarrow>
                            (Some (EncryptSearchFailed err), Some e, db\<lparr>rnd := r\<rparr>)
                        | (Inr encryptedSearch, r) \<Rightarrow>
                            (case update_entry (Name e) (Category e) encryptedData
                                    encryptedSearch (UpdatedAt e) (take 12 encryptedData)
                                    (take 12 encryptedSearch) (ID e) db_now (entries db) of
                               None \<Rightarrow> (Some UpdateFailed, Some e, db\<lparr>rnd := r\<rparr>)
                             | Some (rowsAffected, t) \<Rightarrow>
                                 if rowsAffected = 0
                                 then (Some (EntryNotFound (ID e)), Some e,
                                       db\<lparr>rnd := r, entries := t\<rparr>)
                                 else (None, Some e, db\<lparr>rnd := r, entries := t\<rparr>)))))))"

definition DeleteEntry :: "string \<Rightarrow> store \<Rightarrow> store_error option \<times> store" where
  "DeleteEntry id' db =
     (if id' = [] then (Some IDEmpty, db)
      else
        (let rowsAffected = length (filter (\<lambda>y. col_id y = id') (entries db));
             t = filter (\<lambda>y. col_id y \<noteq> id') (entries db)
         in if rowsAffected = 0 then (Some (EntryNotFound id'), db\<lparr>entries := t\<rparr>)
            else (None, db\<lparr>entries := t\<rparr>)))"

text \<open>
  \<^verbatim>\<open>ListEntries\<close>: the query selects five columns \<^verbatim>\<open>ORDER BY name ASC\<close>, bytewise
  as SQLite compares text, and each row is scanned into a fresh entry, whose other
  fields keep their zero values. It takes no key.
\<close>

definition scan_row :: "row \<Rightarrow> Entry" where
  "scan_row y = \<lparr> ID = col_id y, Name = col_name y, Category = col_category y,
                  Username = [], Password = [], URL = [], Notes = [], Tags = [],
                  CreatedAt = col_created_at y, UpdatedAt = col_updated_at y \<rparr>"

definition ListEntries :: "store \<Rightarrow> Entry list" where
  "ListEntries db = map scan_row (sort_key col_name (entries db))"

text \<open>Histories of the store: any sequence of calls, starting from the empty table.\<close>

datatype store_call =
    CallCreate time "Entry option" slice
  | CallUpdate time time "Entry option" slice
  | CallDelete string

fun run_call :: "libs \<Rightarrow> store_call \<Rightarrow> store \<Rightarrow> store" where
  "run_call L (CallCreate now entry key) db = snd (snd (CreateEntry L now entry key db))"
| "run_call L (CallUpdate now db_now entry key) db =
     snd (snd (UpdateEntry L now db_now entry key db))"
| "run_call L (CallDelete id') db = snd (DeleteEntry id' db)"

definition run_calls :: "libs \<Rightarrow> store_call list \<Rightarrow> store \<Rightarrow> store" where
  "run_calls L calls db = foldl (\<lambda>db c. run_call L c db) db calls"

definition empty_store :: "rand_source \<Rightarrow> store" where
  "empty_store r = \<lparr> rnd = r, entries = [] \<rparr>"

text \<open>Concrete libraries and entries for running the model.\<close>

definition example_libs :: libs where
  "example_libs = \<lparr> lib_gcm = example_gcm,
                     json_Marshal = (\<lambda>d. Some (bytes_of_string (data_Password d))),
                     uuid_String = (\<lambda>bs. ''uuid-'' @ map (\<lambda>b. char_of (unat b + 97)) (take 4 bs)) \<rparr>"

definition github_entry :: Entry where
  "github_entry = \<lparr> ID = [], Name = ''github.com'', Category = [], Username = ''user'',
                     Password = ''secret1'', URL = [], Notes = [], Tags = [],
                     CreatedAt = 0, UpdatedAt = 0 \<rparr>"

definition named_entry :: Entry where
  "named_entry = github_entry\<lparr>ID := ''my-id''\<rparr>"

definition store_after_create :: store where
  "store_after_create =
     snd (snd (CreateEntry example_libs 1500000000 (Some named_entry) (Some key32)
                 (empty_store counting_source)))"

lemma those_length: "those xs = Some ys \<Longrightarrow> length ys = length xs"
  by (induction xs arbitrary: ys) (auto split: option.splits)

lemma rand_Read_length: "rand_Read n r = (Some bs, r') \<Longrightarrow> length bs = n"
  by (auto simp: rand_Read_def dest: those_length)

lemma GenerateNonce_length: "GenerateNonce r = (Inr nonce, r') \<Longrightarrow> length nonce = 12"
  by (auto simp: GenerateNonce_def DefaultNonceSize_def split: prod.splits option.splits
      dest: rand_Read_length)

lemma example_gcm_contract: "gcm_contract example_gcm"
  by (simp add: gcm_contract_def example_gcm_def example_tag_def)

section \<open>Properties of the authenticated cipher\<close>

lemma key32_len: "len (Some key32) = 32"
  by (simp add: len_def key32_def)

lemma Encrypt_success:
  assumes "Encrypt G P K r = (Inr C, r')"
  obtains p k nonce where "P = Some p" "K = Some k" "length k = 32"
    "GenerateNonce r = (Inr nonce, r')" "C = nonce @ gcm_Seal G k nonce p"
  using assms
  by (auto simp: Encrypt_def aes_NewCipher_def
      split: option.splits if_splits prod.splits sum.splits)

lemma ex_enc1:
  "Encrypt example_gcm (Some [1,2,3]) (Some key32) counting_source =
     (Inr sealed123, \<lparr>tape = (\<lambda>i. Some i), pos = 12\<rparr>)"
  by (simp add: Encrypt_def key32_def counting_source_def aes_NewCipher_def GenerateNonce_def
      rand_Read_def DefaultNonceSize_def example_gcm_def example_tag_def upt_rec
      sum_list_replicate sealed123_def)


text \<open>
  Claim C1 (round trip). For every plaintext \<open>P\<close> and every 32-byte key \<open>K\<close>, if
  \<open>Encrypt\<close> succeeds with ciphertext \<open>C\<close>, then \<open>Decrypt\<close> of \<open>C\<close> under \<open>K\<close>
  succeeds and returns exactly \<open>P\<close>. The cipher's own framing is what is verified: the
  nonce is the first 12 bytes, the sealed part follows, and the result is never shorter
  than the 28 bytes \<open>Decrypt\<close> insists on. The library primitive enters through its
  contract \<open>gcm_contract\<close>.
\<close>

theorem Encrypt_Decrypt_roundtrip:
  assumes "gcm_contract G" and "len K = 32" and "Encrypt G P K r = (Inr C, r')"
  shows "\<exists>p. P = Some p \<and> Decrypt G (Some C) K = Inr p"
proof -
  from assms(3) obtain p k nonce where P: "P = Some p" and K: "K = Some k"
    and k32: "length k = 32" and n: "GenerateNonce r = (Inr nonce, r')"
    and C: "C = nonce @ gcm_Seal G k nonce p"
    by (rule Encrypt_success)
  from n have n12: "length nonce = 12"
    by (rule GenerateNonce_length)
  from assms(1) have sealed: "length (gcm_Seal G k nonce p) = length p + 16"
    and opened: "gcm_Open G k nonce (gcm_Seal G k nonce p) = Some p"
    by (simp_all add: gcm_contract_def)
  have "Decrypt G (Some C) (Some k) = Inr p"
    using k32 n12 sealed opened
    by (simp add: Decrypt_def C aes_NewCipher_def minCiphertextSize_def DefaultNonceSize_def)
  with P K show ?thesis by simp
qed

theorem Encrypt_Decrypt_roundtrip_witness:
  "\<exists>p. Some [1,2,3] = Some p \<and> Decrypt example_gcm (Some sealed123) (Some key32) = Inr p"
  using Encrypt_Decrypt_roundtrip [OF example_gcm_contract key32_len ex_enc1] .



text \<open>
  Claim C3 (decryption failures). \<open>Decrypt\<close> returns an error whenever the ciphertext
  is shorter than 28 bytes, whenever the key is not exactly 32 bytes, and whenever the
  authentication tag does not verify. In the last case the error is the one value
  \<open>DecryptionFailed\<close>, whatever made the tag fail: a wrong key and tampered data are
  not told apart.
\<close>

theorem Decrypt_rejects:
  "(len ciphertext < 28 \<or> len key \<noteq> 32 \<longrightarrow> (\<exists>e. Decrypt G ciphertext key = Inl e)) \<and>
   (\<forall>c k. ciphertext = Some c \<and> key = Some k \<and> length k = 32 \<and> 28 \<le> length c \<and>
          gcm_Open G k (take 12 c) (drop 12 c) = None
      \<longrightarrow> Decrypt G ciphertext key = Inl DecryptionFailed)"
  by (auto simp: Decrypt_def len_def minCiphertextSize_def DefaultNonceSize_def aes_NewCipher_def
      split: option.splits)

theorem Decrypt_rejects_witness:
  "(\<exists>e. Decrypt example_gcm (Some [1,2,3]) (Some key32) = Inl e) \<and>
   (\<exists>e. Decrypt example_gcm (Some sealed123) (Some [1,2,3]) = Inl e) \<and>
   Decrypt example_gcm (Some sealed123) (Some other_key32) = Inl DecryptionFailed \<and>
   Decrypt example_gcm (Some tampered123) (Some key32) = Inl DecryptionFailed"
proof -
  have a: "len (Some [1,2,3::byte]) < 28" by (simp add: len_def)
  have b: "len (Some [1,2,3::byte]) \<noteq> 32" by (simp add: len_def)
  have c: "length other_key32 = 32 \<and> 28 \<le> length sealed123 \<and>
      gcm_Open example_gcm other_key32 (take 12 sealed123) (drop 12 sealed123) = None"
    by (simp add: other_key32_def sealed123_def example_gcm_def example_tag_def
        sum_list_replicate)
  have d: "length key32 = 32 \<and> 28 \<le> length tampered123 \<and>
      gcm_Open example_gcm key32 (take 12 tampered123) (drop 12 tampered123) = None"
    by (simp add: key32_def tampered123_def example_gcm_def example_tag_def sum_list_replicate)
  show ?thesis
    using Decrypt_rejects [of "Some [1,2,3]" "Some key32" example_gcm]
      Decrypt_rejects [of "Some sealed123" "Some [1,2,3]" example_gcm]
      Decrypt_rejects [of "Some sealed123" "Some other_key32" example_gcm]
      Decrypt_rejects [of "Some tampered123" "Some key32" example_gcm]
      a b c d
    by blast
qed




section \<open>Properties of key derivation\<close>

lemma example_IDKey_contract: "IDKey_contract example_IDKey"
  by (simp add: IDKey_contract_def example_IDKey_def)

lemma Validate_None_iff:
  "Validate p = None \<longleftrightarrow>
     \<not> (Time p = 0 \<or> Memory p = 0 \<or> Parallelism p = 0 \<or> KeyLen p = 0 \<or> KeyLen p < 16 \<or>
        Memory p < 8192)"
  by (simp add: Validate_def)

text \<open>
  Claim C5 (key derivation failures). \<open>DeriveKey\<close> returns an error if and only if the
  password is empty, the salt is shorter than 8 bytes (a nil salt has length 0), or the
  parameters are invalid: time cost, memory cost, parallelism or key length zero, key
  length below 16, or memory cost below 8192 KiB. For every other input it succeeds,
  and the key has \<open>KeyLen\<close> bytes, which is the length Argon2id is asked for.
\<close>

theorem DeriveKey_error_iff:
  "((\<exists>e. DeriveKey F password salt params = Inl e) \<longleftrightarrow>
      password = [] \<or> len salt < 8 \<or> Time params = 0 \<or> Memory params = 0 \<or>
      Parallelism params = 0 \<or> KeyLen params = 0 \<or> KeyLen params < 16 \<or>
      Memory params < 8192) \<and>
   (IDKey_contract F \<longrightarrow>
      \<not> (password = [] \<or> len salt < 8 \<or> Time params = 0 \<or> Memory params = 0 \<or>
         Parallelism params = 0 \<or> KeyLen params = 0 \<or> KeyLen params < 16 \<or>
         Memory params < 8192) \<longrightarrow>
      (\<exists>key. DeriveKey F password salt params = Inr key \<and> length key = unat (KeyLen params)))"
proof (cases "Validate params")
  case None
  then show ?thesis
    using Validate_None_iff [of params]
    by (auto simp: DeriveKey_def len_def MinSaltLength_def IDKey_contract_def split: option.splits)
next
  case (Some e)
  then show ?thesis
    using Validate_None_iff [of params]
    by (auto simp: DeriveKey_def len_def MinSaltLength_def split: option.splits)
qed

theorem DeriveKey_error_iff_witness:
  "(\<exists>key. DeriveKey example_IDKey ''hunter2'' (Some (replicate 8 5)) DefaultArgon2Params = Inr key
      \<and> length key = 32) \<and>
   (\<exists>e. DeriveKey example_IDKey ''hunter2'' (Some (replicate 7 5)) DefaultArgon2Params = Inl e)"
proof -
  have ok: "\<not> (''hunter2'' = [] \<or> len (Some (replicate 8 (5::byte))) < 8 \<or>
      Time DefaultArgon2Params = 0 \<or> Memory DefaultArgon2Params = 0 \<or>
      Parallelism DefaultArgon2Params = 0 \<or> KeyLen DefaultArgon2Params = 0 \<or>
      KeyLen DefaultArgon2Params < 16 \<or> Memory DefaultArgon2Params < 8192)"
    by (simp add: len_def DefaultArgon2Params_def)
  have short: "len (Some (replicate 7 (5::byte))) < 8"
    by (simp add: len_def)
  have k: "unat (KeyLen DefaultArgon2Params) = 32"
    by (simp add: DefaultArgon2Params_def)
  show ?thesis
    using DeriveKey_error_iff [of example_IDKey "''hunter2''" "Some (replicate 8 5)" DefaultArgon2Params]
      DeriveKey_error_iff [of example_IDKey "''hunter2''" "Some (replicate 7 5)" DefaultArgon2Params]
      example_IDKey_contract ok short k
    by metis
qed

section \<open>Properties of the record store\<close>

lemma those_map_Some:
  "(\<forall>x\<in>set xs. f x \<noteq> None) \<Longrightarrow> \<exists>ys. those (map f xs) = Some ys"
  by (induction xs) auto

lemma rand_Read_ok:
  assumes "rand_ok n r"
  shows "\<exists>bs. rand_Read n r = (Some bs, r\<lparr>pos := pos r + n\<rparr>)"
proof -
  have "tape r x \<noteq> None" if "pos r \<le> x" and "x < pos r + n" for x
    using assms [unfolded rand_ok_def, rule_format, of "x - pos r"] that by simp
  then have "\<forall>x\<in>set [pos r ..< pos r + n]. tape r x \<noteq> None"
    by simp
  then obtain ys where "those (map (tape r) [pos r ..< pos r + n]) = Some ys"
    using those_map_Some by blast
  then show ?thesis
    by (simp add: rand_Read_def)
qed

lemma rand_ok_add:
  "rand_ok (m + n) r \<Longrightarrow> rand_ok m r \<and> rand_ok n (r\<lparr>pos := pos r + m\<rparr>)"
  by (auto simp: rand_ok_def add.assoc)

lemma Encrypt_ok:
  assumes "length k = 32" and "rand_ok 12 r"
  shows "\<exists>c. Encrypt G (Some p) (Some k) r = (Inr c, r\<lparr>pos := pos r + 12\<rparr>)"
proof -
  from assms(2) obtain bs where "rand_Read 12 r = (Some bs, r\<lparr>pos := pos r + 12\<rparr>)"
    using rand_Read_ok by blast
  with assms(1) show ?thesis
    by (simp add: Encrypt_def aes_NewCipher_def GenerateNonce_def DefaultNonceSize_def)
qed

lemma insert_entry_Some:
  "insert_entry y t = Some t' \<longleftrightarrow>
     t' = t @ [y] \<and> col_id y \<notin> set (map col_id t) \<and> col_name y \<notin> set (map col_name t)"
  by (auto simp: insert_entry_def)

lemma CreateEntry_failure:
  assumes "CreateEntry L now entry key db = (Some x, e', db')"
  shows "entries db' = entries db"
  using assms unfolding CreateEntry_def Let_def
  by (auto split: option.split_asm if_split_asm prod.split_asm sum.split_asm simp: insert_entry_Some)

lemma CreateEntry_success:
  assumes "CreateEntry L now entry key db = (None, e', db')"
  shows "\<exists>e u y. entry = Some e \<and> e' = Some u \<and> entries db' = entries db @ [y] \<and>
             col_id y \<notin> set (map col_id (entries db)) \<and>
             col_name y \<notin> set (map col_name (entries db)) \<and>
             col_id y = ID u \<and> col_name y = Name u \<and> col_category y = Category u \<and>
             col_created_at y = now \<and> col_updated_at y = now \<and>
             CreatedAt u = now \<and> UpdatedAt u = now \<and> Name u = Name e \<and>
             Category u = (if Category e = [] then ''general'' else Category e) \<and>
             (ID e \<noteq> [] \<longrightarrow> ID u = ID e) \<and>
             (ID e = [] \<longrightarrow>
                (\<exists>bs r. rand_Read 16 (rnd db) = (Some bs, r) \<and> ID u = uuid_String L bs))"
  using assms unfolding CreateEntry_def Let_def
  by (auto split: option.split_asm if_split_asm prod.split_asm sum.split_asm simp: insert_entry_Some)

lemma update_entry_Some:
  "update_entry n c d s u nd ns i t0 t = Some (k, t') \<longleftrightarrow>
     \<not> (i \<in> set (map col_id t) \<and> n \<in> set (map col_name (filter (\<lambda>y. col_id y \<noteq> i) t))) \<and>
     k = length (filter (\<lambda>y. col_id y = i) t) \<and>
     t' = map (\<lambda>y. if col_id y = i
                    then y\<lparr>col_name := n, col_category := c, col_encrypted_data := d,
                           col_encrypted_search := s, col_updated_at := CURRENT_TIMESTAMP t0,
                           col_encryption_nonce := nd, col_search_nonce := ns\<rparr>
                    else y) t"
  by (auto simp: update_entry_def update_entries_timestamp_def)

lemma no_hit_map:
  "filter (\<lambda>y. col_id y = i) t = [] \<Longrightarrow> map (\<lambda>y. if col_id y = i then g y else y) t = t"
  by (induction t) (auto split: if_splits)

lemma hit_iff: "filter (\<lambda>y. col_id y = i) t = [] \<longleftrightarrow> i \<notin> col_id ` set t"
  by (auto simp: filter_empty_conv)

lemma UpdateEntry_failure:
  assumes "UpdateEntry L now db_now entry key db = (Some x, e', db')"
  shows "entries db' = entries db"
  using assms unfolding UpdateEntry_def Let_def
  by (auto split: option.split_asm if_split_asm prod.split_asm sum.split_asm
      simp: update_entry_Some no_hit_map)

lemma UpdateEntry_success:
  assumes "UpdateEntry L now db_now (Some e) key db = (None, e', db')"
  shows "ID e \<noteq> [] \<and> ID e \<in> col_id ` set (entries db) \<and>
         map col_id (entries db') = map col_id (entries db) \<and>
         map col_created_at (entries db') = map col_created_at (entries db) \<and>
         (\<forall>y'\<in>set (entries db'). col_id y' = ID e \<longrightarrow>
            col_updated_at y' = CURRENT_TIMESTAMP db_now \<and>
            col_category y' = (if Category e = [] then ''general'' else Category e)) \<and>
         (\<forall>y'\<in>set (entries db'). col_id y' \<noteq> ID e \<longrightarrow> y' \<in> set (entries db)) \<and>
         (\<forall>y\<in>set (entries db). col_id y \<noteq> ID e \<longrightarrow> y \<in> set (entries db'))"
  using assms unfolding UpdateEntry_def Let_def
  by (auto split: option.split_asm if_split_asm prod.split_asm sum.split_asm
      simp: update_entry_Some hit_iff)

end
